theory Spec2Isabelle
  imports Complex_Main
begin

section \<open>The world outside the module\<close>

text \<open>
  The module talks to an HTTP server through \<^verbatim>\<open>requests.get\<close>, waits with
  \<^verbatim>\<open>time.sleep\<close> and writes lines with \<^verbatim>\<open>print\<close>. A run is modelled by the list of
  these effects, oldest first: \<open>Get\<close> is one call of \<^verbatim>\<open>requests.get\<close>, \<open>Sleep d\<close> a
  call \<^verbatim>\<open>time.sleep(d)\<close> that has waited. Durations and measurements are Python floats;
  they are modelled as real numbers, so rounding, infinities and \<^verbatim>\<open>NaN\<close> arguments are
  not modelled. Errors of the operating system (\<^verbatim>\<open>OSError\<close>) in \<^verbatim>\<open>print\<close>,
  \<^verbatim>\<open>time.sleep\<close> or \<^verbatim>\<open>savefig\<close> are not modelled either.
\<close>

text \<open>The exceptions below \<^verbatim>\<open>requests.exceptions.RequestException\<close> that the calls of the
  \<^verbatim>\<open>try\<close> block can raise: \<^verbatim>\<open>HTTPError\<close> is the one \<^verbatim>\<open>raise_for_status\<close> raises and
  carries the status, \<^verbatim>\<open>JSONDecodeError\<close> the one \<^verbatim>\<open>response.json()\<close> raises for a body
  that is not JSON.\<close>

datatype request_exception = ConnectionError | Timeout | HTTPError int | JSONDecodeError

text \<open>Python exceptions of the module. \<^verbatim>\<open>MaxRetriesExceeded n\<close> is
  \<^verbatim>\<open>Exception(f"Max retries ({n}) exceeded.")\<close> and \<^verbatim>\<open>ApiRequestFailed n\<close> is
  \<^verbatim>\<open>Exception(f"API request failed after {n} retries.")\<close>; \<^verbatim>\<open>ValueError\<close>,
  \<^verbatim>\<open>KeyError\<close> and \<^verbatim>\<open>TypeError\<close> carry their message. \<open>InvalidInt s\<close> is the
  \<^verbatim>\<open>ValueError\<close> that \<^verbatim>\<open>int(s)\<close> raises for the string \<open>s\<close>, whose message quotes
  \<open>s\<close> or counts its digits. \<^verbatim>\<open>OverflowError\<close> stands without its message.\<close>

datatype exn =
    RequestException request_exception
  | ValueError string
  | InvalidInt string
  | OverflowError
  | KeyError string
  | TypeError string
  | MaxRetriesExceeded int
  | ApiRequestFailed int

text \<open>The console lines of the module, with the values their f-strings insert.\<close>

datatype line =
    RateLimited int
  | RequestFailed request_exception
  | RetryingIn real
  | FetchingDataFor string
  | ErrorProcessing string exn
  | PlotSaved

text \<open>A chart is the list of its panels: a title and one labelled series per city.\<close>

type_synonym date = "nat \<times> nat \<times> nat"

type_synonym chart = "(string \<times> (string \<times> (date \<times> real option) list) list) list"

datatype event = Get | Sleep real | Print line | Savefig string chart

type_synonym trace = "event list"

fun is_Get :: "event \<Rightarrow> bool" where
  "is_Get Get = True"
| "is_Get _ = False"

fun is_Sleep :: "event \<Rightarrow> bool" where
  "is_Sleep (Sleep d) = True"
| "is_Sleep _ = False"

fun is_Savefig :: "event \<Rightarrow> bool" where
  "is_Savefig (Savefig f c) = True"
| "is_Savefig _ = False"

definition issued :: "trace \<Rightarrow> nat" where
  "issued tr = length (filter is_Get tr)"

definition saved_charts :: "trace \<Rightarrow> event list" where
  "saved_charts tr = filter is_Savefig tr"

text \<open>What one \<^verbatim>\<open>requests.get\<close> call gives: a response, of which the module reads the
  status code, the \<^verbatim>\<open>Retry-After\<close> header and the body, or an exception of the
  \<^verbatim>\<open>RequestException\<close> family (connection error, timeout, DNS failure). The field
  \<open>json\<close> is what \<^verbatim>\<open>response.json()\<close> gives: the decoded body, or \<open>None\<close> when the body
  is not JSON and the call raises \<^verbatim>\<open>JSONDecodeError\<close>.\<close>

record 'j response =
  status_code :: int
  retry_after :: "string option"
  json :: "'j option"

datatype 'j http_outcome = Responds "'j response" | Fails request_exception

text \<open>The server answers the \<open>n\<close>-th request of the run (counted from 0) to a URL with
  query parameters.\<close>

type_synonym ('p, 'j) server = "nat \<Rightarrow> string \<Rightarrow> 'p \<Rightarrow> 'j http_outcome"

section \<open>Library functions the module calls\<close>

text \<open>\<^verbatim>\<open>int(s)\<close> on a string, base 10. Whitespace around the literal is stripped: the
  characters 9 to 13, the space, and the characters 0x85 and 0xA0. One sign is allowed,
  then decimal digits, with single underscores allowed between digits, and at most
  4300 digits. Anything else raises \<^verbatim>\<open>ValueError\<close>, here \<open>None\<close>.\<close>

definition is_space :: "char \<Rightarrow> bool" where
  "is_space c = (let n = of_char c :: nat in
     (9 \<le> n \<and> n \<le> 13) \<or> n = 32 \<or> n = 133 \<or> n = 160)"

definition is_digit :: "char \<Rightarrow> bool" where
  "is_digit c = (let n = of_char c :: nat in 48 \<le> n \<and> n \<le> 57)"

definition digit_val :: "char \<Rightarrow> nat" where
  "digit_val c = of_char c - 48"

definition strip :: "string \<Rightarrow> string" where
  "strip s = rev (dropWhile is_space (rev (dropWhile is_space s)))"

fun py_digits :: "string \<Rightarrow> nat \<Rightarrow> nat option" where
  "py_digits [] acc = Some acc"
| "py_digits (c # cs) acc =
     (if is_digit c then py_digits cs (10 * acc + digit_val c)
      else if c = CHR ''_'' then
        (case cs of
           [] \<Rightarrow> None
         | d # ds \<Rightarrow> if is_digit d then py_digits ds (10 * acc + digit_val d) else None)
      else None)"

definition py_nat :: "string \<Rightarrow> nat option" where
  "py_nat s = (case s of
       [] \<Rightarrow> None
     | c # cs \<Rightarrow>
         if is_digit c \<and> length (filter is_digit (c # cs)) \<le> 4300
         then py_digits cs (digit_val c) else None)"

definition py_int :: "string \<Rightarrow> int option" where
  "py_int s = (case strip s of
       [] \<Rightarrow> None
     | c # cs \<Rightarrow>
         if c = CHR ''-'' then map_option (\<lambda>n. - int n) (py_nat cs)
         else if c = CHR ''+'' then map_option int (py_nat cs)
         else map_option int (py_nat (c # cs)))"

text \<open>The number of decimal digits of a natural number.\<close>

function num_digits :: "nat \<Rightarrow> nat" where
  "num_digits n = (if n < 10 then 1 else Suc (num_digits (n div 10)))"
  by pat_completeness auto
termination
  by (relation "measure id") auto

declare num_digits.simps [simp del]

text \<open>An f-string can hold an integer of at most 4300 digits; for a longer one the
  conversion to text raises a \<^verbatim>\<open>ValueError\<close> with this message.\<close>

definition printable :: "int \<Rightarrow> bool" where
  "printable n \<longleftrightarrow> num_digits (nat \<bar>n\<bar>) \<le> 4300"

definition digit_limit :: string where
  "digit_limit = ''Exceeds the limit (4300 digits) for integer string conversion; '' @
     ''use sys.set_int_max_str_digits() to increase the limit''"

text \<open>An integer that meets a float in a product is converted to a float first, which
  raises \<^verbatim>\<open>OverflowError\<close> from \<open>2 ^ 1024 - 2 ^ 970\<close> on.\<close>

definition float_of_int :: "int \<Rightarrow> exn + real" where
  "float_of_int n =
     (if \<bar>n\<bar> < 2 ^ 1024 - 2 ^ 970 then Inr (real_of_int n) else Inl OverflowError)"

text \<open>\<^verbatim>\<open>time.sleep(d)\<close> converts the duration to nanoseconds in 64 bits, rounding away
  from zero, and raises \<^verbatim>\<open>OverflowError\<close> when they do not fit; then it raises
  \<^verbatim>\<open>ValueError\<close> for a negative duration. \<open>None\<close> is a call that waits and returns.\<close>

definition time_sleep :: "real \<Rightarrow> exn option" where
  "time_sleep d =
     (if d * 10 ^ 9 < - (2 ^ 63) \<or> 2 ^ 63 - 1 < d * 10 ^ 9 then Some OverflowError
      else if d < 0 then Some (ValueError ''sleep length must be non-negative'')
      else None)"

text \<open>\<^verbatim>\<open>Response.raise_for_status()\<close> of the requests library raises \<^verbatim>\<open>HTTPError\<close> for
  the client and server error statuses, 400 to 599, and returns for every other status.\<close>

definition raise_for_status :: "int \<Rightarrow> bool" where
  "raise_for_status status \<longleftrightarrow> 400 \<le> status \<and> status < 600"

section \<open>fetch_api_data\<close>

text \<open>\<^verbatim>\<open>int(response.headers.get("Retry-After", 10))\<close>: the default 10 when the header is
  absent, the parsed header otherwise, or the \<^verbatim>\<open>ValueError\<close> of \<^verbatim>\<open>int\<close>.\<close>

definition retry_after_seconds :: "string option \<Rightarrow> exn + int" where
  "retry_after_seconds h = (case h of
       None \<Rightarrow> Inr 10
     | Some s \<Rightarrow> (case py_int s of None \<Rightarrow> Inl (InvalidInt s) | Some n \<Rightarrow> Inr n))"

text \<open>The rate-limit branch after the header is read: the line is printed, the product
  \<^verbatim>\<open>retry_after * backoff_factor\<close> is computed and handed to \<^verbatim>\<open>time.sleep\<close>. Either of
  the two can raise; otherwise the call has waited.\<close>

definition rate_limit_sleep :: "int \<Rightarrow> real \<Rightarrow> trace \<Rightarrow> exn + trace" where
  "rate_limit_sleep ra backoff_factor tr =
     (case float_of_int ra of
        Inl e \<Rightarrow> Inl e
      | Inr x \<Rightarrow>
          (case time_sleep (x * backoff_factor) of
             Some e \<Rightarrow> Inl e
           | None \<Rightarrow> Inr (tr @ [Sleep (x * backoff_factor)])))"

text \<open>How the body of the \<^verbatim>\<open>try\<close> block ends: it returns the body, it finishes after the
  rate-limit branch has counted the attempt, it finishes without counting
  (\<^verbatim>\<open>raise_for_status\<close> returned), or it raises.\<close>

datatype 'j attempt = Return 'j | Counted | Uncounted | Raised exn

definition try_body ::
  "('p, 'j) server \<Rightarrow> string \<Rightarrow> 'p \<Rightarrow> real \<Rightarrow> trace \<Rightarrow> 'j attempt \<times> trace" where
  "try_body srv url params backoff_factor tr =
     (case srv (issued tr) url params of
        Fails e \<Rightarrow> (Raised (RequestException e), tr @ [Get])
      | Responds response \<Rightarrow>
          if status_code response = 200 then
            (case json response of
               None \<Rightarrow> (Raised (RequestException JSONDecodeError), tr @ [Get])
             | Some body \<Rightarrow> (Return body, tr @ [Get]))
          else if status_code response = 429 then
            (case retry_after_seconds (retry_after response) of
               Inl e \<Rightarrow> (Raised e, tr @ [Get])
             | Inr ra \<Rightarrow>
                 (case rate_limit_sleep ra backoff_factor (tr @ [Get, Print (RateLimited ra)]) of
                    Inl e \<Rightarrow> (Raised e, tr @ [Get, Print (RateLimited ra)])
                  | Inr tr1 \<Rightarrow> (Counted, tr1)))
          else if raise_for_status (status_code response)
            then (Raised (RequestException (HTTPError (status_code response))), tr @ [Get])
          else (Uncounted, tr @ [Get]))"

text \<open>The two \<^verbatim>\<open>raise Exception(f"...")\<close> statements: the f-string is built first, and
  for a \<^verbatim>\<open>max_retries\<close> that cannot be printed it is that conversion which raises.\<close>

definition raise_max_retries :: "int \<Rightarrow> exn" where
  "raise_max_retries max_retries =
     (if printable max_retries then MaxRetriesExceeded max_retries else ValueError digit_limit)"

definition raise_request_failed :: "int \<Rightarrow> exn" where
  "raise_request_failed max_retries =
     (if printable max_retries then ApiRequestFailed max_retries else ValueError digit_limit)"

text \<open>The \<^verbatim>\<open>while\<close> loop, with the local variable \<^verbatim>\<open>retries\<close> as an argument. The loop
  need not end, so the result is an option: \<open>None\<close> is a run that never returns.
  \<open>Inl\<close> is the exception that leaves the function, \<open>Inr\<close> the returned body. In the
  handler the product \<^verbatim>\<open>backoff_factor * (2 ** retries)\<close> and \<^verbatim>\<open>time.sleep\<close> can raise;
  what they raise leaves the function, as it is raised outside the \<^verbatim>\<open>try\<close> block.\<close>

partial_function (option) fetch_loop ::
  "('p, 'j) server \<Rightarrow> string \<Rightarrow> 'p \<Rightarrow> int \<Rightarrow> real \<Rightarrow> nat \<Rightarrow> trace
     \<Rightarrow> ((exn + 'j) \<times> trace) option" where
  "fetch_loop srv url params max_retries backoff_factor retries tr =
     (if int retries < max_retries then
        (case try_body srv url params backoff_factor tr of
           (Return body, tr1) \<Rightarrow> Some (Inr body, tr1)
         | (Counted, tr1) \<Rightarrow>
             fetch_loop srv url params max_retries backoff_factor (retries + 1) tr1
         | (Uncounted, tr1) \<Rightarrow>
             fetch_loop srv url params max_retries backoff_factor retries tr1
         | (Raised (RequestException e), tr1) \<Rightarrow>
             (if int (retries + 1) < max_retries then
                (case float_of_int (2 ^ (retries + 1)) of
                   Inl x \<Rightarrow> Some (Inl x, tr1 @ [Print (RequestFailed e)])
                 | Inr p \<Rightarrow>
                     (case time_sleep (backoff_factor * p) of
                        Some x \<Rightarrow>
                          Some (Inl x, tr1 @ [Print (RequestFailed e),
                                              Print (RetryingIn (backoff_factor * p))])
                      | None \<Rightarrow>
                          fetch_loop srv url params max_retries backoff_factor (retries + 1)
                            (tr1 @ [Print (RequestFailed e),
                                    Print (RetryingIn (backoff_factor * p)),
                                    Sleep (backoff_factor * p)])))
              else Some (Inl (raise_max_retries max_retries),
                         tr1 @ [Print (RequestFailed e)]))
         | (Raised other, tr1) \<Rightarrow> Some (Inl other, tr1))
      else Some (Inl (raise_request_failed max_retries), tr))"

declare fetch_loop.simps [code]

definition fetch_api_data ::
  "('p, 'j) server \<Rightarrow> string \<Rightarrow> 'p \<Rightarrow> int \<Rightarrow> real \<Rightarrow> trace
     \<Rightarrow> ((exn + 'j) \<times> trace) option" where
  "fetch_api_data srv url params max_retries backoff_factor tr =
     fetch_loop srv url params max_retries backoff_factor 0 tr"

text \<open>\<^verbatim>\<open>time.sleep\<close> accepts the backoff \<^verbatim>\<open>backoff_factor * (2 ** k)\<close>: the power converts
  to a float and the product is a duration \<^verbatim>\<open>time.sleep\<close> waits for.\<close>

definition backoff_accepted :: "real \<Rightarrow> nat \<Rightarrow> bool" where
  "backoff_accepted backoff_factor k \<longleftrightarrow>
     k < 1024 \<and> time_sleep (backoff_factor * 2 ^ k) = None"

text \<open>\<^verbatim>\<open>time.sleep\<close> accepts the wait \<^verbatim>\<open>retry_after * backoff_factor\<close> of the rate-limit
  branch.\<close>

definition wait_accepted :: "int \<Rightarrow> real \<Rightarrow> bool" where
  "wait_accepted ra backoff_factor \<longleftrightarrow>
     \<bar>ra\<bar> < 2 ^ 1024 - 2 ^ 970 \<and> time_sleep (real_of_int ra * backoff_factor) = None"

text \<open>The effects of \<open>n\<close> failed attempts in a row, each followed by its backoff, when
  no attempt was counted before them.\<close>

definition failed_attempts :: "(nat \<Rightarrow> request_exception) \<Rightarrow> real \<Rightarrow> nat \<Rightarrow> trace" where
  "failed_attempts e backoff_factor n =
     concat (map (\<lambda>i. [Get, Print (RequestFailed (e i)),
                        Print (RetryingIn (backoff_factor * 2 ^ (i + 1))),
                        Sleep (backoff_factor * 2 ^ (i + 1))]) [0..<n])"

text \<open>The effects of \<open>n\<close> rate-limited attempts in a row with the \<^verbatim>\<open>Retry-After\<close> values
  \<open>ra 0\<close>, \<open>ra 1\<close>, ...\<close>

definition limited_attempts :: "(nat \<Rightarrow> int) \<Rightarrow> real \<Rightarrow> nat \<Rightarrow> trace" where
  "limited_attempts ra backoff_factor n =
     concat (map (\<lambda>i. [Get, Print (RateLimited (ra i)),
                        Sleep (real_of_int (ra i) * backoff_factor)]) [0..<n])"

section \<open>Decoded JSON\<close>

text \<open>The values \<^verbatim>\<open>response.json()\<close> can give. An object is the list of its members;
  a Python dict has each key once.\<close>

datatype json =
    JNull
  | JBool bool
  | JNum real
  | JStr string
  | JArr "json list"
  | JObj "(string \<times> json) list"

definition keys :: "(string \<times> json) list \<Rightarrow> string set" where
  "keys kvs = set (map fst kvs)"

fun starts_with :: "string \<Rightarrow> string \<Rightarrow> bool" where
  "starts_with [] s = True"
| "starts_with (k # ks) [] = False"
| "starts_with (k # ks) (c # cs) = (k = c \<and> starts_with ks cs)"

fun occurs_in :: "string \<Rightarrow> string \<Rightarrow> bool" where
  "occurs_in k [] = (k = [])"
| "occurs_in k (c # cs) = (starts_with k (c # cs) \<or> occurs_in k cs)"

text \<open>\<^verbatim>\<open>key in x\<close> for a string key: key membership for a dict, element membership for
  a list, substring test for a string, and \<^verbatim>\<open>TypeError\<close> for a value that is not
  iterable.\<close>

fun py_in :: "string \<Rightarrow> json \<Rightarrow> exn + bool" where
  "py_in k (JObj kvs) = Inr (k \<in> keys kvs)"
| "py_in k (JArr xs) = Inr (JStr k \<in> set xs)"
| "py_in k (JStr s) = Inr (occurs_in k s)"
| "py_in k _ = Inl (TypeError ''argument is not iterable'')"

text \<open>\<^verbatim>\<open>x[key]\<close> for a string key: the member of a dict or \<^verbatim>\<open>KeyError\<close>; every other
  JSON value rejects a string index with \<^verbatim>\<open>TypeError\<close>.\<close>

fun getitem :: "json \<Rightarrow> string \<Rightarrow> exn + json" where
  "getitem (JObj kvs) k = (case map_of kvs k of None \<Rightarrow> Inl (KeyError k) | Some v \<Rightarrow> Inr v)"
| "getitem _ k = Inl (TypeError ''indices must be integers'')"

section \<open>validate_response_schema\<close>

definition VARIABLES :: "string list" where
  "VARIABLES = [''temperature_2m_mean'', ''precipitation_sum'', ''wind_speed_10m_max'']"

definition required_keys :: "string list" where
  "required_keys = [''daily'', ''daily_units'', ''latitude'', ''longitude'', ''generationtime_ms'']"

definition required_vars :: "string list" where
  "required_vars = VARIABLES @ [''time'']"

text \<open>The first loop: \<^verbatim>\<open>for key in required_keys: if key not in response: raise\<close>.\<close>

fun check_keys :: "string list \<Rightarrow> json \<Rightarrow> exn + unit" where
  "check_keys [] response = Inr ()"
| "check_keys (key # rest) response =
     (case py_in key response of
        Inl e \<Rightarrow> Inl e
      | Inr True \<Rightarrow> check_keys rest response
      | Inr False \<Rightarrow> Inl (ValueError (''Invalid API response: missing key '' @ key)))"

text \<open>The second loop, over the members of \<^verbatim>\<open>daily\<close>.\<close>

fun check_vars :: "string list \<Rightarrow> json \<Rightarrow> exn + unit" where
  "check_vars [] daily = Inr ()"
| "check_vars (var # rest) daily =
     (case py_in var daily of
        Inl e \<Rightarrow> Inl e
      | Inr True \<Rightarrow> check_vars rest daily
      | Inr False \<Rightarrow>
          Inl (ValueError (''Invalid API response: missing variable '' @ var @ '' in daily data'')))"

definition validate_response_schema :: "json \<Rightarrow> exn + unit" where
  "validate_response_schema response =
     (case check_keys required_keys response of
        Inl e \<Rightarrow> Inl e
      | Inr u \<Rightarrow>
          (case getitem response ''daily'' of
             Inl e \<Rightarrow> Inl e
           | Inr daily \<Rightarrow> check_vars required_vars daily))"

section \<open>get_data_meteo_api\<close>

definition API_URL :: string where
  "API_URL = ''https://archive-api.open-meteo.com/v1/archive?''"

definition COORDINATES :: "(string \<times> real \<times> real) list" where
  "COORDINATES =
     [(''Madrid'', 40.416775, - 3.703790),
      (''London'', 51.507351, - 0.127758),
      (''Rio'', - 22.906847, - 43.172896)]"

record params =
  latitude :: real
  longitude :: real
  start_date :: string
  end_date :: string
  daily :: string

text \<open>\<^verbatim>\<open>",".join(VARIABLES)\<close>.\<close>

fun join :: "string \<Rightarrow> string list \<Rightarrow> string" where
  "join sep [] = []"
| "join sep [x] = x"
| "join sep (x # y # ys) = x @ sep @ join sep (y # ys)"

definition get_data_meteo_api ::
  "(params, json) server \<Rightarrow> string \<Rightarrow> trace \<Rightarrow> ((exn + json) \<times> trace) option" where
  "get_data_meteo_api srv city tr =
     (case map_of COORDINATES city of
        None \<Rightarrow> Some (Inl (ValueError (''City '' @ city @ '' not found in COORDINATES'')), tr)
      | Some (lat, lon) \<Rightarrow>
          (case fetch_api_data srv API_URL
                  \<lparr>latitude = lat, longitude = lon, start_date = ''2010-01-01'',
                   end_date = ''2020-12-31'', daily = join '','' VARIABLES\<rparr> 3 1 tr of
             None \<Rightarrow> None
           | Some (Inl e, tr1) \<Rightarrow> Some (Inl e, tr1)
           | Some (Inr response, tr1) \<Rightarrow>
               (case validate_response_schema response of
                  Inl e \<Rightarrow> Some (Inl e, tr1)
                | Inr u \<Rightarrow> Some (Inr response, tr1))))"

section \<open>process_daily_data\<close>

text \<open>
  The pandas calls are modelled on the tables the API sends: the time column is an array
  of ISO dates \<^verbatim>\<open>YYYY-MM-DD\<close> within the range of pandas timestamps, a measurement
  column an array of numbers and nulls (a null is \<^verbatim>\<open>NaN\<close>, here \<open>None\<close>) with at least
  one number, and there is at least one row. About any other input the model says
  nothing: the result is \<open>None\<close>.
\<close>

record row =
  time :: date
  temperature :: "real option"
  precipitation :: "real option"
  wind_speed :: "real option"

record monthly_row = row +
  city :: string

fun cell :: "json \<Rightarrow> real option option" where
  "cell (JNum x) = Some (Some x)"
| "cell JNull = Some None"
| "cell _ = None"

fun numbers :: "json \<Rightarrow> real option list option" where
  "numbers (JArr xs) =
     (case those (map cell xs) of
        None \<Rightarrow> None
      | Some vs \<Rightarrow> if vs \<noteq> [] \<and> list_all (\<lambda>v. v = None) vs then None else Some vs)"
| "numbers _ = None"

fun text_of :: "json \<Rightarrow> string option" where
  "text_of (JStr s) = Some s"
| "text_of _ = None"

fun strings :: "json \<Rightarrow> string list option" where
  "strings (JArr xs) = those (map text_of xs)"
| "strings _ = None"

definition is_leap :: "nat \<Rightarrow> bool" where
  "is_leap y \<longleftrightarrow> y mod 4 = 0 \<and> (y mod 100 \<noteq> 0 \<or> y mod 400 = 0)"

definition days_in_month :: "nat \<Rightarrow> nat \<Rightarrow> nat" where
  "days_in_month y m =
     (if m = 2 then (if is_leap y then 29 else 28)
      else if m = 4 \<or> m = 6 \<or> m = 9 \<or> m = 11 then 30 else 31)"

definition number :: "string \<Rightarrow> nat option" where
  "number s = (if s \<noteq> [] \<and> list_all is_digit s
     then Some (foldl (\<lambda>acc c. 10 * acc + digit_val c) 0 s) else None)"

text \<open>\<^verbatim>\<open>pd.to_datetime\<close> on a column of ISO dates: each string is read as the date it
  writes. The years are those a pandas timestamp can hold throughout.\<close>

definition iso_date :: "string \<Rightarrow> date option" where
  "iso_date s =
     (if length s = 10 \<and> s ! 4 = CHR ''-'' \<and> s ! 7 = CHR ''-'' then
        (case (number (take 4 s), number (take 2 (drop 5 s)), number (drop 8 s)) of
           (Some y, Some m, Some d) \<Rightarrow>
             if 1678 \<le> y \<and> y \<le> 2261 \<and> 1 \<le> m \<and> m \<le> 12 \<and> 1 \<le> d \<and> d \<le> days_in_month y m
             then Some (y, m, d) else None
         | _ \<Rightarrow> None)
      else None)"

definition to_datetime :: "string list \<Rightarrow> date list option" where
  "to_datetime ts = those (map iso_date ts)"

text \<open>\<^verbatim>\<open>resample('ME')\<close>: one bin per calendar month from the earliest to the latest
  month of the index, empty months included, each labelled with the month's last day
  and holding the values of its rows in row order.\<close>

definition month_no :: "date \<Rightarrow> nat" where
  "month_no d = (case d of (y, m, dd) \<Rightarrow> 12 * y + (m - 1))"

definition month_end :: "nat \<Rightarrow> date" where
  "month_end k = (k div 12, k mod 12 + 1, days_in_month (k div 12) (k mod 12 + 1))"

definition resample_ME :: "(date \<times> real option) list \<Rightarrow> (date \<times> real option list) list" where
  "resample_ME series =
     (case map (month_no \<circ> fst) series of
        [] \<Rightarrow> []
      | k # ks \<Rightarrow>
          map (\<lambda>b. (month_end b, map snd (filter (\<lambda>r. month_no (fst r) = b) series)))
            [foldl min k ks ..< Suc (foldl max k ks)])"

fun present :: "real option list \<Rightarrow> real list" where
  "present [] = []"
| "present (None # vs) = present vs"
| "present (Some x # vs) = x # present vs"

text \<open>The three reducers skip \<^verbatim>\<open>NaN\<close>: the mean and the maximum of no value are
  \<^verbatim>\<open>NaN\<close>, the sum of no value is 0.\<close>

definition resample_mean :: "real option list \<Rightarrow> real option" where
  "resample_mean vs = (case present vs of
       [] \<Rightarrow> None
     | x # xs \<Rightarrow> Some (sum_list (x # xs) / real (length (x # xs))))"

definition resample_sum :: "real option list \<Rightarrow> real option" where
  "resample_sum vs = Some (sum_list (present vs))"

definition resample_max :: "real option list \<Rightarrow> real option" where
  "resample_max vs = (case present vs of
       [] \<Rightarrow> None
     | x # xs \<Rightarrow> Some (foldl max x xs))"

text \<open>The monthly table: the three resampled columns share the index of the first.\<close>

definition monthly :: "row list \<Rightarrow> string \<Rightarrow> monthly_row list" where
  "monthly df c =
     map (\<lambda>((t, x), (u, y), (v, z)).
            \<lparr>time = t, temperature = resample_mean x, precipitation = resample_sum y,
             wind_speed = resample_max z, city = c\<rparr>)
       (zip (resample_ME (map (\<lambda>r. (time r, temperature r)) df))
          (zip (resample_ME (map (\<lambda>r. (time r, precipitation r)) df))
               (resample_ME (map (\<lambda>r. (time r, wind_speed r)) df))))"

text \<open>The \<^verbatim>\<open>DataFrame\<close> constructor on the four columns, which must have one length,
  then the time index and the monthly table.\<close>

definition monthly_table ::
  "json \<Rightarrow> json \<Rightarrow> json \<Rightarrow> json \<Rightarrow> string \<Rightarrow> (exn + monthly_row list) option" where
  "monthly_table t a b w c =
     (case (strings t, numbers a, numbers b, numbers w) of
        (Some ts, Some xs, Some ys, Some zs) \<Rightarrow>
          if length xs = length ts \<and> length ys = length ts \<and> length zs = length ts then
            (case to_datetime ts of
               None \<Rightarrow> None
             | Some [] \<Rightarrow> None
             | Some (d # ds) \<Rightarrow>
                 Some (Inr (monthly
                   (map (\<lambda>(t, x, y, z).
                           \<lparr>time = t, temperature = x, precipitation = y, wind_speed = z\<rparr>)
                      (zip (d # ds) (zip xs (zip ys zs)))) c)))
          else Some (Inl (ValueError ''All arrays must be of the same length''))
      | _ \<Rightarrow> None)"

text \<open>The lookups of \<^verbatim>\<open>process_daily_data\<close> in the order of the source, then the table.\<close>

definition process_daily_data :: "json \<Rightarrow> string \<Rightarrow> (exn + monthly_row list) option" where
  "process_daily_data response c =
     (case getitem response ''daily'' of
        Inl e \<Rightarrow> Some (Inl e)
      | Inr daily_data \<Rightarrow>
     (case getitem daily_data ''time'' of
        Inl e \<Rightarrow> Some (Inl e)
      | Inr t \<Rightarrow>
     (case getitem daily_data ''temperature_2m_mean'' of
        Inl e \<Rightarrow> Some (Inl e)
      | Inr a \<Rightarrow>
     (case getitem daily_data ''precipitation_sum'' of
        Inl e \<Rightarrow> Some (Inl e)
      | Inr b \<Rightarrow>
     (case getitem daily_data ''wind_speed_10m_max'' of
        Inl e \<Rightarrow> Some (Inl e)
      | Inr w \<Rightarrow> monthly_table t a b w c)))))"

section \<open>plot_combined_data and main\<close>

fun unique :: "'a list \<Rightarrow> 'a list" where
  "unique [] = []"
| "unique (x # xs) = x # unique (filter (\<lambda>y. y \<noteq> x) xs)"

definition titles :: "string list" where
  "titles =
     [''Monthly Mean Temperature ('' @ [CHR 0xC2, CHR 0xB0] @ ''C)'',
      ''Monthly Total Precipitation (mm)'',
      ''Monthly Maximum Wind Speed (m/s)'']"

definition plot_combined_data :: "monthly_row list \<Rightarrow> trace \<Rightarrow> trace" where
  "plot_combined_data combined_df tr =
     tr @ [Savefig ''weather_evolution.png''
             (map (\<lambda>(var, title).
                (title,
                 map (\<lambda>c. (c, map (\<lambda>r. (time r, var r)) (filter (\<lambda>r. city r = c) combined_df)))
                   (unique (map city combined_df))))
              (zip [temperature, precipitation, wind_speed] titles)),
           Print PlotSaved]"

text \<open>\<^verbatim>\<open>pd.concat\<close> refuses an empty list of tables.\<close>

definition pd_concat :: "monthly_row list list \<Rightarrow> exn + monthly_row list" where
  "pd_concat dfs =
     (if dfs = [] then Inl (ValueError ''No objects to concatenate'') else Inr (concat dfs))"

text \<open>
  The driver is modelled for any aggregation step: \<open>process\<close> stands for
  \<^verbatim>\<open>process_daily_data\<close>, which raises or gives a table. In the results of the driver
  \<open>None\<close> is a run that does not return, or one whose aggregation is outside the
  tables modelled above.
\<close>

type_synonym aggregation = "json \<Rightarrow> string \<Rightarrow> (exn + monthly_row list) option"

text \<open>The body of the \<^verbatim>\<open>try\<close> block of \<^verbatim>\<open>main\<close> for one city.\<close>

definition try_city ::
  "aggregation \<Rightarrow> (params, json) server \<Rightarrow> string \<Rightarrow> trace
     \<Rightarrow> ((exn + monthly_row list) \<times> trace) option" where
  "try_city process srv c tr =
     (case get_data_meteo_api srv c tr of
        None \<Rightarrow> None
      | Some (Inl e, tr1) \<Rightarrow> Some (Inl e, tr1)
      | Some (Inr response, tr1) \<Rightarrow>
          (case process response c of
             None \<Rightarrow> None
           | Some r \<Rightarrow> Some (r, tr1)))"

text \<open>The \<^verbatim>\<open>for\<close> loop of \<^verbatim>\<open>main\<close>; \<^verbatim>\<open>except Exception\<close> catches every exception of
  the model.\<close>

fun main_loop ::
  "aggregation \<Rightarrow> (params, json) server \<Rightarrow> string list \<Rightarrow> monthly_row list list \<Rightarrow> trace
     \<Rightarrow> (monthly_row list list \<times> trace) option" where
  "main_loop process srv [] all_data tr = Some (all_data, tr)"
| "main_loop process srv (c # cities) all_data tr =
     (case try_city process srv c (tr @ [Print (FetchingDataFor c)]) of
        None \<Rightarrow> None
      | Some (Inl e, tr1) \<Rightarrow>
          main_loop process srv cities all_data (tr1 @ [Print (ErrorProcessing c e)])
      | Some (Inr processed_df, tr1) \<Rightarrow>
          main_loop process srv cities (all_data @ [processed_df]) tr1)"

definition main :: "aggregation \<Rightarrow> (params, json) server \<Rightarrow> ((exn + unit) \<times> trace) option" where
  "main process srv =
     (case main_loop process srv (map fst COORDINATES) [] [] of
        None \<Rightarrow> None
      | Some (all_data, tr) \<Rightarrow>
          (case pd_concat all_data of
             Inl e \<Rightarrow> Some (Inl e, tr)
           | Inr combined_df \<Rightarrow> Some (Inr (), plot_combined_data combined_df tr)))"

text \<open>What the \<^verbatim>\<open>try\<close> block of a city leaves behind: the line the \<^verbatim>\<open>except\<close>
  clause prints, and the tables the city adds to \<^verbatim>\<open>all_data\<close>.\<close>

definition error_line :: "string \<Rightarrow> exn + monthly_row list \<Rightarrow> trace" where
  "error_line c r = (case r of Inl e \<Rightarrow> [Print (ErrorProcessing c e)] | Inr df \<Rightarrow> [])"

definition collected :: "exn + monthly_row list \<Rightarrow> monthly_row list list" where
  "collected r = (case r of Inl e \<Rightarrow> [] | Inr df \<Rightarrow> [df])"

section \<open>Example inputs\<close>

text \<open>The query \<^verbatim>\<open>get_data_meteo_api\<close> builds for Madrid.\<close>

definition madrid_params :: params where
  "madrid_params =
     \<lparr>latitude = 40.416775, longitude = - 3.703790, start_date = ''2010-01-01'',
      end_date = ''2020-12-31'', daily = join '','' VARIABLES\<rparr>"

text \<open>Two consecutive days of January 2010, as in the module's test of the aggregation,
  in a response that has every required key.\<close>

definition two_days :: json where
  "two_days = JObj
     [(''latitude'', JNum 40.416775),
      (''longitude'', JNum (- 3.703790)),
      (''generationtime_ms'', JNum 1),
      (''daily'', JObj
         [(''time'', JArr [JStr ''2010-01-01'', JStr ''2010-01-02'']),
          (''temperature_2m_mean'', JArr [JNum 10, JNum 12]),
          (''precipitation_sum'', JArr [JNum 5, JNum 0]),
          (''wind_speed_10m_max'', JArr [JNum 3, JNum 4])]),
      (''daily_units'', JObj [])]"



text \<open>The invalid response of that test.\<close>

definition incomplete :: json where
  "incomplete = JObj
     [(''latitude'', JNum 40.416775),
      (''generationtime_ms'', JNum 1),
      (''daily'', JObj [])]"

definition ok :: "json response" where
  "ok = \<lparr>status_code = 200, retry_after = None, json = Some two_days\<rparr>"

text \<open>An answer 200 whose body is not JSON.\<close>

definition not_json :: "json response" where
  "not_json = \<lparr>status_code = 200, retry_after = None, json = None\<rparr>"

definition too_many_requests :: "string option \<Rightarrow> json response" where
  "too_many_requests h = \<lparr>status_code = 429, retry_after = h, json = Some JNull\<rparr>"

definition internal_server_error :: "json response" where
  "internal_server_error = \<lparr>status_code = 500, retry_after = None, json = Some JNull\<rparr>"

text \<open>A server that answers every request with 200 and the two days.\<close>

definition always_ok :: "(params, json) server" where
  "always_ok n url p = Responds ok"

text \<open>A server that answers the first request with 500 and every later one with 200.\<close>

definition error_then_ok :: "(params, json) server" where
  "error_then_ok n url p = (if n = 0 then Responds internal_server_error else Responds ok)"

text \<open>A server whose first answer is 200 with a body that is not JSON, and every later
  one 200 with the two days.\<close>

definition garbled_then_ok :: "(params, json) server" where
  "garbled_then_ok n url p = (if n = 0 then Responds not_json else Responds ok)"

text \<open>A server that answers the first request with 429 and no \<^verbatim>\<open>Retry-After\<close> header,
  drops the connection of the second and answers every later one with 200.\<close>

definition limited_then_dropped :: "(params, json) server" where
  "limited_then_dropped n url p =
     (if n = 0 then Responds (too_many_requests None)
      else if n = 1 then Fails ConnectionError
      else Responds ok)"

text \<open>A server that answers every request with 429 and \<^verbatim>\<open>Retry-After: 30\<close>.\<close>

definition always_limited :: "(params, json) server" where
  "always_limited n url p = Responds (too_many_requests (Some ''30''))"

text \<open>A server that answers 429 with the date form of \<^verbatim>\<open>Retry-After\<close>.\<close>

definition limited_until_date :: "(params, json) server" where
  "limited_until_date n url p =
     Responds (too_many_requests (Some ''Wed, 21 Oct 2015 07:28:00 GMT''))"

text \<open>A server that cannot be reached.\<close>

definition unreachable :: "(params, json) server" where
  "unreachable n url p = Fails ConnectionError"

text \<open>A server that cannot be reached for the first three requests, which are those of
  the first city, and answers every later one with 200 and the two days.\<close>

definition reachable_later :: "(params, json) server" where
  "reachable_later n url p = (if n < 3 then Fails ConnectionError else Responds ok)"

text \<open>A server that answers every request with 204 No Content.\<close>

definition no_content :: "(params, json) server" where
  "no_content n url p = Responds \<lparr>status_code = 204, retry_after = None, json = Some JNull\<rparr>"

section \<open>The retry loop, one attempt at a time\<close>

lemma float_of_int_power:
  assumes "k < 1024"
  shows "float_of_int (2 ^ k) = Inr (2 ^ k)"
proof -
  from assms have "k \<le> 1023" by simp
  then have "(2::int) ^ k \<le> 2 ^ 1023"
    by (intro power_increasing) simp_all
  also have "(2::int) ^ 1023 < 2 ^ 1024 - 2 ^ 970"
    by simp
  finally show ?thesis
    by (simp add: float_of_int_def)
qed

lemma rate_limit_sleep_accepted:
  assumes "wait_accepted ra backoff_factor"
  shows "rate_limit_sleep ra backoff_factor tr =
     Inr (tr @ [Sleep (real_of_int ra * backoff_factor)])"
  using assms by (simp add: wait_accepted_def rate_limit_sleep_def float_of_int_def)

lemma fetch_loop_exhausted:
  "\<not> int retries < max_retries \<Longrightarrow>
   fetch_loop srv url params max_retries backoff_factor retries tr =
     Some (Inl (raise_request_failed max_retries), tr)"
  by (subst fetch_loop.simps) simp

lemma fetch_loop_200:
  assumes "int retries < max_retries"
    and "srv (issued tr) url params = Responds resp"
    and "status_code resp = 200"
    and "json resp = Some body"
  shows "fetch_loop srv url params max_retries backoff_factor retries tr =
     Some (Inr body, tr @ [Get])"
  using assms by (subst fetch_loop.simps) (simp add: try_body_def)

lemma fetch_loop_429:
  assumes "int retries < max_retries"
    and "srv (issued tr) url params = Responds resp"
    and "status_code resp = 429"
    and "retry_after_seconds (retry_after resp) = Inr ra"
    and "wait_accepted ra backoff_factor"
  shows "fetch_loop srv url params max_retries backoff_factor retries tr =
     fetch_loop srv url params max_retries backoff_factor (retries + 1)
       (tr @ [Get, Print (RateLimited ra), Sleep (real_of_int ra * backoff_factor)])"
  using assms
  by (subst fetch_loop.simps) (simp add: try_body_def rate_limit_sleep_accepted)

lemma fetch_loop_429_unparsable:
  assumes "int retries < max_retries"
    and "srv (issued tr) url params = Responds resp"
    and "status_code resp = 429"
    and "retry_after resp = Some s"
    and "py_int s = None"
  shows "fetch_loop srv url params max_retries backoff_factor retries tr =
     Some (Inl (InvalidInt s), tr @ [Get])"
  using assms by (subst fetch_loop.simps) (simp add: try_body_def retry_after_seconds_def)

lemma fetch_loop_raised:
  assumes "int retries < max_retries"
    and "try_body srv url params backoff_factor tr = (Raised (RequestException e), tr1)"
    and "int (retries + 1) < max_retries \<longrightarrow> backoff_accepted backoff_factor (retries + 1)"
  shows "fetch_loop srv url params max_retries backoff_factor retries tr =
     (if int (retries + 1) < max_retries then
        fetch_loop srv url params max_retries backoff_factor (retries + 1)
          (tr1 @ [Print (RequestFailed e),
                  Print (RetryingIn (backoff_factor * 2 ^ (retries + 1))),
                  Sleep (backoff_factor * 2 ^ (retries + 1))])
      else Some (Inl (raise_max_retries max_retries), tr1 @ [Print (RequestFailed e)]))"
proof (cases "int (retries + 1) < max_retries")
  case True
  with assms(3) have "retries + 1 < 1024"
    and s: "time_sleep (backoff_factor * 2 ^ (retries + 1)) = None"
    by (simp_all add: backoff_accepted_def)
  then have "float_of_int (2 ^ (retries + 1)) = Inr (2 ^ (retries + 1))"
    by (intro float_of_int_power)
  with True assms(1,2) s show ?thesis
    by (subst fetch_loop.simps) simp
next
  case False
  with assms(1,2) show ?thesis
    by (subst fetch_loop.simps) simp
qed

lemma try_body_fails:
  "srv (issued tr) url params = Fails e \<Longrightarrow>
   try_body srv url params backoff_factor tr = (Raised (RequestException e), tr @ [Get])"
  by (simp add: try_body_def)

lemma try_body_error_status:
  assumes "srv (issued tr) url params = Responds resp"
    and "400 \<le> status_code resp" and "status_code resp < 600" and "status_code resp \<noteq> 429"
  shows "try_body srv url params backoff_factor tr =
     (Raised (RequestException (HTTPError (status_code resp))), tr @ [Get])"
  using assms by (simp add: try_body_def raise_for_status_def)

lemma try_body_not_json:
  assumes "srv (issued tr) url params = Responds resp"
    and "status_code resp = 200" and "json resp = None"
  shows "try_body srv url params backoff_factor tr =
     (Raised (RequestException JSONDecodeError), tr @ [Get])"
  using assms by (simp add: try_body_def)

lemma fetch_loop_uncounted:
  assumes "int retries < max_retries"
    and "srv (issued tr) url params = Responds resp"
    and "status_code resp \<noteq> 200" and "status_code resp \<noteq> 429"
    and "\<not> raise_for_status (status_code resp)"
  shows "fetch_loop srv url params max_retries backoff_factor retries tr =
     fetch_loop srv url params max_retries backoff_factor retries (tr @ [Get])"
  using assms by (subst fetch_loop.simps) (simp add: try_body_def)

lemma issued_append: "issued (tr @ evs) = issued tr + issued evs"
  by (simp add: issued_def)

lemma py_int_http_date: "py_int ''Wed, 21 Oct 2015 07:28:00 GMT'' = None"
  by code_simp

lemma retry_after_30: "retry_after_seconds (Some ''30'') = Inr 30"
  by code_simp


lemma printable_1: "printable 1"
  by code_simp

lemma printable_2: "printable 2"
  by code_simp


lemma wait_accepted_30_half: "wait_accepted 30 (1 / 2)"
  by (simp add: wait_accepted_def time_sleep_def)

section \<open>Claims about fetch_api_data\<close>

text \<open>
  C8, as the spec states it, fails: a first answer with status 200 is not always
  returned at once. \<^verbatim>\<open>response.json()\<close> is called inside the \<^verbatim>\<open>try\<close> block, and the
  \<^verbatim>\<open>JSONDecodeError\<close> it raises for a body that is not JSON is a \<^verbatim>\<open>RequestException\<close>.
  Answered 200 with such a body and then 200 with the two days, the default call prints
  the failure, sleeps 2 seconds, issues the request again and returns the second body.
\<close>

theorem undecodable_200_counterexample:
  "fetch_api_data garbled_then_ok API_URL madrid_params 3 1 [] =
     Some (Inr two_days,
       [Get, Print (RequestFailed JSONDecodeError), Print (RetryingIn 2), Sleep 2, Get])"
  by code_simp

text \<open>
  C8, amended. When the first request of a call to \<^verbatim>\<open>fetch_api_data\<close> is answered with
  status 200 and a body that decodes as JSON, the call returns the decoded body at once:
  the only effect is that one request, with no sleep and no second request. A first
  request exists when \<open>max_retries\<close> is positive.
\<close>

theorem fetch_returns_on_200:
  assumes "0 < max_retries"
    and "srv (issued tr) url params = Responds resp"
    and "status_code resp = 200"
    and "json resp = Some body"
  shows "fetch_api_data srv url params max_retries backoff_factor tr =
     Some (Inr body, tr @ [Get])"
  using assms fetch_loop_200 [of 0 max_retries srv tr url params resp body backoff_factor]
  by (simp add: fetch_api_data_def)

theorem fetch_returns_on_200_witness:
  "fetch_api_data always_ok API_URL madrid_params 3 1 [] = Some (Inr two_days, [Get])"
  using fetch_returns_on_200 [where max_retries = 3 and srv = always_ok and tr = "[]"
      and url = API_URL and params = madrid_params and resp = ok and body = two_days
      and backoff_factor = 1]
  by (simp add: always_ok_def ok_def)




text \<open>
  C1, as the spec states it, fails: a status that is neither 200 nor 429 is not fatal.
  Answered with 500 and then with 200, the default call prints the failure, sleeps 2
  seconds, issues the request again and returns the body of the second response.
\<close>

theorem fatal_status_counterexample:
  "fetch_api_data error_then_ok API_URL madrid_params 3 1 [] =
     Some (Inr two_days,
       [Get, Print (RequestFailed (HTTPError 500)), Print (RetryingIn 2), Sleep 2, Get])"
  by code_simp

text \<open>
  C1, amended. An error status, 400 to 599, other than 429 makes \<^verbatim>\<open>raise_for_status\<close>
  raise an \<^verbatim>\<open>HTTPError\<close>, which the handler for \<^verbatim>\<open>RequestException\<close> catches like a
  network failure: the attempt is counted; if attempts remain and \<^verbatim>\<open>time.sleep\<close> accepts
  the backoff, the function sleeps \<open>backoff_factor * 2 ^ (retries + 1)\<close> seconds and goes
  on with the loop, and if the budget, a number that can be printed, is used up it fails
  with "Max retries exceeded".
\<close>

theorem error_status_is_retried:
  assumes "int retries < max_retries"
    and "srv (issued tr) url params = Responds resp"
    and "400 \<le> status_code resp" and "status_code resp < 600" and "status_code resp \<noteq> 429"
    and "int (retries + 1) < max_retries \<longrightarrow> backoff_accepted backoff_factor (retries + 1)"
    and "printable max_retries"
  shows "fetch_loop srv url params max_retries backoff_factor retries tr =
     (if int (retries + 1) < max_retries then
        fetch_loop srv url params max_retries backoff_factor (retries + 1)
          (tr @ [Get, Print (RequestFailed (HTTPError (status_code resp))),
                 Print (RetryingIn (backoff_factor * 2 ^ (retries + 1))),
                 Sleep (backoff_factor * 2 ^ (retries + 1))])
      else Some (Inl (MaxRetriesExceeded max_retries),
                 tr @ [Get, Print (RequestFailed (HTTPError (status_code resp)))]))"
  using assms
    fetch_loop_raised [of retries max_retries srv url params backoff_factor tr
      "HTTPError (status_code resp)" "tr @ [Get]"]
  by (simp add: try_body_error_status raise_max_retries_def)

text \<open>With a budget of one attempt, the answer 500 ends the call with "Max retries
  exceeded".\<close>

theorem error_status_is_retried_witness:
  "fetch_api_data error_then_ok API_URL madrid_params 1 1 [] =
     Some (Inl (MaxRetriesExceeded 1), [Get, Print (RequestFailed (HTTPError 500))])"
  using error_status_is_retried [where retries = 0 and max_retries = 1
      and srv = error_then_ok and url = API_URL and params = madrid_params
      and resp = internal_server_error and backoff_factor = 1 and tr = "[]"]
  by (simp add: fetch_api_data_def error_then_ok_def internal_server_error_def issued_def
      printable_1)

text \<open>
  C3, as the spec states it, fails in one point: the attempt counted for a 429 is not
  kept apart from the exponential schedule. Answered with 429 (no \<^verbatim>\<open>Retry-After\<close>), then
  with a dropped connection, then with 200, the default call sleeps 10 seconds for the
  429 and then 4 seconds, \<open>1 * 2 ^ 2\<close>, for the first network failure: the 429 has moved
  the exponent on. Had it counted against the budget only, that sleep would be
  \<open>1 * 2 ^ 1 = 2\<close> seconds.
\<close>

theorem rate_limit_schedule_counterexample:
  "fetch_api_data limited_then_dropped API_URL madrid_params 3 1 [] =
     Some (Inr two_days,
       [Get, Print (RateLimited 10), Sleep 10,
        Get, Print (RequestFailed ConnectionError), Print (RetryingIn 4), Sleep 4,
        Get])"
  by code_simp

text \<open>
  C3, amended. On a 429 whose \<^verbatim>\<open>Retry-After\<close> value is \<open>ra\<close> (10 when the header is
  absent, the integer \<^verbatim>\<open>int\<close> reads from the header otherwise), and whose wait
  \<^verbatim>\<open>time.sleep\<close> accepts, the function sleeps exactly \<open>ra * backoff_factor\<close> seconds and
  increments the one counter \<open>retries\<close>. That counter is the retry budget: if no attempt
  remains the call fails with "API request failed". It is also the exponent of the
  backoff: if attempts remain the request is issued again, and when that request fails
  at network level the sleep is \<open>backoff_factor * 2 ^ (retries + 2)\<close>.
\<close>

theorem rate_limit_counts_attempt:
  assumes "int retries < max_retries"
    and "srv (issued tr) url params = Responds resp"
    and "status_code resp = 429"
    and "retry_after_seconds (retry_after resp) = Inr ra"
    and "wait_accepted ra backoff_factor"
    and "int (retries + 2) < max_retries \<longrightarrow> backoff_accepted backoff_factor (retries + 2)"
    and "printable max_retries"
    and "tr1 = tr @ [Get, Print (RateLimited ra), Sleep (real_of_int ra * backoff_factor)]"
  shows "fetch_loop srv url params max_retries backoff_factor retries tr =
     (if int (retries + 1) < max_retries then
        (case srv (issued tr1) url params of
           Fails e \<Rightarrow>
             if int (retries + 2) < max_retries then
               fetch_loop srv url params max_retries backoff_factor (retries + 2)
                 (tr1 @ [Get, Print (RequestFailed e),
                         Print (RetryingIn (backoff_factor * 2 ^ (retries + 2))),
                         Sleep (backoff_factor * 2 ^ (retries + 2))])
             else Some (Inl (MaxRetriesExceeded max_retries),
                        tr1 @ [Get, Print (RequestFailed e)])
         | Responds next_response \<Rightarrow>
             fetch_loop srv url params max_retries backoff_factor (retries + 1) tr1)
      else Some (Inl (ApiRequestFailed max_retries), tr1))"
proof -
  have step: "fetch_loop srv url params max_retries backoff_factor retries tr =
      fetch_loop srv url params max_retries backoff_factor (retries + 1) tr1"
    using assms fetch_loop_429 [of retries max_retries srv tr url params resp ra backoff_factor]
    by simp
  show ?thesis
  proof (cases "int (retries + 1) < max_retries")
    case False
    then show ?thesis
      using step assms(7) fetch_loop_exhausted [of "retries + 1" max_retries srv url params
          backoff_factor tr1]
      by (simp add: raise_request_failed_def)
  next
    case True
    show ?thesis
    proof (cases "srv (issued tr1) url params")
      case (Responds next_response)
      with True step show ?thesis by simp
    next
      case (Fails e)
      then show ?thesis
        using True step assms(6,7)
          fetch_loop_raised [of "retries + 1" max_retries srv url params backoff_factor tr1 e
            "tr1 @ [Get]"]
        by (simp add: try_body_fails raise_max_retries_def)
    qed
  qed
qed

text \<open>Answered 429 with \<^verbatim>\<open>Retry-After: 30\<close> every time, a call with two attempts and
  backoff factor one half sleeps 15 seconds twice and fails.\<close>

theorem rate_limit_counts_attempt_witness:
  "fetch_api_data always_limited API_URL madrid_params 2 (1 / 2) [] =
     Some (Inl (ApiRequestFailed 2),
       [Get, Print (RateLimited 30), Sleep 15, Get, Print (RateLimited 30), Sleep 15])"
proof -
  have "fetch_loop always_limited API_URL madrid_params 2 (1 / 2) 0 [] =
      fetch_loop always_limited API_URL madrid_params 2 (1 / 2) 1
        [Get, Print (RateLimited 30), Sleep 15]"
    using rate_limit_counts_attempt [where retries = 0 and max_retries = 2
        and srv = always_limited and url = API_URL and params = madrid_params
        and resp = "too_many_requests (Some ''30'')" and ra = 30
        and backoff_factor = "1 / 2" and tr = "[]"
        and ?tr1.0 = "[Get, Print (RateLimited 30), Sleep 15]"]
    by (simp add: always_limited_def too_many_requests_def retry_after_30
        wait_accepted_30_half printable_2)
  also have "\<dots> = Some (Inl (ApiRequestFailed 2),
       [Get, Print (RateLimited 30), Sleep 15, Get, Print (RateLimited 30), Sleep 15])"
    by code_simp
  finally show ?thesis
    by (simp add: fetch_api_data_def)
qed

text \<open>
  C10. On a 429 whose \<^verbatim>\<open>Retry-After\<close> header is present and is not an integer that
  \<^verbatim>\<open>int\<close> reads, \<^verbatim>\<open>int\<close> raises a \<^verbatim>\<open>ValueError\<close>. The handler catches
  \<^verbatim>\<open>RequestException\<close> only, so the error leaves \<^verbatim>\<open>fetch_api_data\<close> at once: the request
  is the only effect, there is no sleep, no retry and no "Max retries exceeded".
\<close>

theorem unparsable_retry_after_escapes:
  assumes "int retries < max_retries"
    and "srv (issued tr) url params = Responds resp"
    and "status_code resp = 429"
    and "retry_after resp = Some s"
    and "py_int s = None"
  shows "fetch_loop srv url params max_retries backoff_factor retries tr =
     Some (Inl (InvalidInt s), tr @ [Get])"
  using assms by (rule fetch_loop_429_unparsable)

theorem unparsable_retry_after_escapes_witness:
  "fetch_api_data limited_until_date API_URL madrid_params 3 1 [] =
     Some (Inl (InvalidInt ''Wed, 21 Oct 2015 07:28:00 GMT''), [Get])"
  using unparsable_retry_after_escapes [where retries = 0 and max_retries = 3
      and srv = limited_until_date and url = API_URL and params = madrid_params
      and resp = "too_many_requests (Some ''Wed, 21 Oct 2015 07:28:00 GMT'')"
      and s = "''Wed, 21 Oct 2015 07:28:00 GMT''" and backoff_factor = 1 and tr = "[]"]
  by (simp add: fetch_api_data_def limited_until_date_def too_many_requests_def
      py_int_http_date)

text \<open>A run of the loop against the server that answers 204 never produces a result
  while attempts remain: such an answer is neither returned, nor counted, nor raised.\<close>

lemma fetch_loop_no_content:
  assumes "fetch_loop srv url params max_retries backoff_factor retries tr = Some y"
  shows "\<not> (srv = no_content \<and> int retries < max_retries)"
  by (rule fetch_loop.raw_induct
        [where P = "\<lambda>srv url params max_retries backoff_factor retries tr y.
                      \<not> (srv = no_content \<and> int retries < max_retries)", OF _ assms])
     (auto simp: try_body_def no_content_def raise_for_status_def)

text \<open>
  C9 states that the retry loop ends for every \<open>max_retries\<close> and every sequence of
  HTTP outcomes. The code does not: against a server that answers every request with
  204 No Content, the default call never returns. \<^verbatim>\<open>raise_for_status\<close> does not raise for
  204, so the attempt is not counted and the request is issued again at once, forever.
\<close>

theorem fetch_never_returns_on_204:
  "fetch_api_data no_content API_URL madrid_params 3 1 [] = None"
proof (cases "fetch_api_data no_content API_URL madrid_params 3 1 []")
  case None
  then show ?thesis .
next
  case (Some y)
  then have "fetch_loop no_content API_URL madrid_params 3 1 0 [] = Some y"
    by (simp add: fetch_api_data_def)
  from fetch_loop_no_content [OF this] show ?thesis by simp
qed

subsection \<open>Whole runs of the retry loop\<close>

text \<open>A call whose first \<open>n\<close> requests fail at network level, with \<open>n\<close> below the
  budget and backoffs that \<^verbatim>\<open>time.sleep\<close> accepts, has slept \<open>backoff_factor * 2 ^ 1\<close>,
  ..., \<open>backoff_factor * 2 ^ n\<close> and stands at \<open>n\<close> counted attempts; when all
  \<open>max_retries\<close> requests fail, the call ends with "Max retries exceeded" after the last
  of them.\<close>

lemma issued_failed_attempts: "issued (failed_attempts e backoff_factor n) = n"
  by (induction n) (simp_all add: failed_attempts_def issued_def)

lemma consecutive_failures:
  assumes "\<forall>i<n. srv (issued tr + i) url params = Fails (e i)"
    and "\<forall>i<n. backoff_accepted backoff_factor (i + 1)"
    and "int n < max_retries"
  shows "fetch_loop srv url params max_retries backoff_factor 0 tr =
     fetch_loop srv url params max_retries backoff_factor n
       (tr @ failed_attempts e backoff_factor n)"
  using assms
proof (induction n)
  case 0
  then show ?case by (simp add: failed_attempts_def)
next
  case (Suc n)
  let ?t = "tr @ failed_attempts e backoff_factor n"
  from Suc.prems have "srv (issued ?t) url params = Fails (e n)"
    by (simp add: issued_append issued_failed_attempts)
  then have tb: "try_body srv url params backoff_factor ?t =
      (Raised (RequestException (e n)), ?t @ [Get])"
    by (rule try_body_fails)
  from Suc.prems have lt: "int n < max_retries" and lt': "int (n + 1) < max_retries"
    by simp_all
  from Suc.prems(2) have acc: "backoff_accepted backoff_factor (n + 1)"
    by simp
  from Suc.prems have "\<forall>i<n. srv (issued tr + i) url params = Fails (e i)"
    and "\<forall>i<n. backoff_accepted backoff_factor (i + 1)"
    by simp_all
  from Suc.IH [OF this lt]
  have "fetch_loop srv url params max_retries backoff_factor 0 tr =
      fetch_loop srv url params max_retries backoff_factor n ?t" .
  also have "\<dots> = fetch_loop srv url params max_retries backoff_factor (n + 1)
      ((?t @ [Get]) @ [Print (RequestFailed (e n)),
         Print (RetryingIn (backoff_factor * 2 ^ (n + 1))),
         Sleep (backoff_factor * 2 ^ (n + 1))])"
    using fetch_loop_raised [OF lt tb] lt' acc by simp
  also have "(?t @ [Get]) @ [Print (RequestFailed (e n)),
         Print (RetryingIn (backoff_factor * 2 ^ (n + 1))),
         Sleep (backoff_factor * 2 ^ (n + 1))] =
      tr @ failed_attempts e backoff_factor (Suc n)"
    by (simp add: failed_attempts_def)
  finally show ?case by simp
qed

lemma failures_exhaust_budget:
  assumes "0 < max_retries"
    and "\<forall>i < nat max_retries. srv (issued tr + i) url params = Fails (e i)"
    and "\<forall>i < nat max_retries - 1. backoff_accepted backoff_factor (i + 1)"
    and "printable max_retries"
  shows "fetch_api_data srv url params max_retries backoff_factor tr =
     Some (Inl (MaxRetriesExceeded max_retries),
       tr @ failed_attempts e backoff_factor (nat max_retries - 1) @
         [Get, Print (RequestFailed (e (nat max_retries - 1)))])"
proof -
  let ?n = "nat max_retries - 1"
  let ?t = "tr @ failed_attempts e backoff_factor ?n"
  from assms(1) have lt: "int ?n < max_retries" and last: "\<not> int (?n + 1) < max_retries"
    by simp_all
  from assms have "\<forall>i < ?n. srv (issued tr + i) url params = Fails (e i)"
    by simp
  with lt assms(3) have "fetch_loop srv url params max_retries backoff_factor 0 tr =
      fetch_loop srv url params max_retries backoff_factor ?n ?t"
    using consecutive_failures [of ?n srv tr url params e backoff_factor max_retries]
    by simp
  moreover from assms(1) have "?n < nat max_retries"
    by simp
  with assms(2) have "srv (issued tr + ?n) url params = Fails (e ?n)"
    by blast
  then have "srv (issued ?t) url params = Fails (e ?n)"
    by (simp only: issued_append issued_failed_attempts)
  then have "try_body srv url params backoff_factor ?t =
      (Raised (RequestException (e ?n)), ?t @ [Get])"
    by (simp add: try_body_fails)
  from fetch_loop_raised [OF lt this] last assms(4)
  have "fetch_loop srv url params max_retries backoff_factor ?n ?t =
      Some (Inl (MaxRetriesExceeded max_retries), (?t @ [Get]) @ [Print (RequestFailed (e ?n))])"
    by (simp add: raise_max_retries_def)
  ultimately show ?thesis
    by (simp add: fetch_api_data_def)
qed

text \<open>A call whose first \<open>n\<close> requests are answered with 429, with \<open>n\<close> within the
  budget and waits that \<^verbatim>\<open>time.sleep\<close> accepts, has slept \<open>ra i * backoff_factor\<close> after
  each and stands at \<open>n\<close> counted attempts; when all \<open>max_retries\<close> requests are answered
  so, the call ends with "API request failed" after the last sleep.\<close>

lemma issued_limited_attempts: "issued (limited_attempts ra backoff_factor n) = n"
  by (induction n) (simp_all add: limited_attempts_def issued_def)

lemma consecutive_rate_limits:
  assumes "\<forall>i<n. \<exists>resp. srv (issued tr + i) url params = Responds resp \<and>
      status_code resp = 429 \<and> retry_after_seconds (retry_after resp) = Inr (ra i) \<and>
      wait_accepted (ra i) backoff_factor"
    and "int n \<le> max_retries"
  shows "fetch_loop srv url params max_retries backoff_factor 0 tr =
     fetch_loop srv url params max_retries backoff_factor n
       (tr @ limited_attempts ra backoff_factor n)"
  using assms
proof (induction n)
  case 0
  then show ?case by (simp add: limited_attempts_def)
next
  case (Suc n)
  let ?t = "tr @ limited_attempts ra backoff_factor n"
  from Suc.prems(1) obtain resp where r: "srv (issued tr + n) url params = Responds resp"
    "status_code resp = 429" "retry_after_seconds (retry_after resp) = Inr (ra n)"
    "wait_accepted (ra n) backoff_factor"
    by blast
  from r(1) have r': "srv (issued ?t) url params = Responds resp"
    by (simp only: issued_append issued_limited_attempts)
  from Suc.prems have lt: "int n < max_retries" and le: "int n \<le> max_retries"
    by simp_all
  from Suc.prems have "\<forall>i<n. \<exists>resp. srv (issued tr + i) url params = Responds resp \<and>
      status_code resp = 429 \<and> retry_after_seconds (retry_after resp) = Inr (ra i) \<and>
      wait_accepted (ra i) backoff_factor"
    by simp
  then have "fetch_loop srv url params max_retries backoff_factor 0 tr =
      fetch_loop srv url params max_retries backoff_factor n ?t"
    using le by (rule Suc.IH)
  also have "\<dots> = fetch_loop srv url params max_retries backoff_factor (n + 1)
      (?t @ [Get, Print (RateLimited (ra n)), Sleep (real_of_int (ra n) * backoff_factor)])"
    using lt r' r(2,3,4)
      fetch_loop_429 [of n max_retries srv ?t url params resp "ra n" backoff_factor]
    by simp
  also have "?t @ [Get, Print (RateLimited (ra n)), Sleep (real_of_int (ra n) * backoff_factor)] =
      tr @ limited_attempts ra backoff_factor (Suc n)"
    by (simp add: limited_attempts_def)
  finally show ?case by simp
qed

lemma rate_limits_exhaust_budget:
  assumes "\<forall>i < nat max_retries. \<exists>resp. srv (issued tr + i) url params = Responds resp \<and>
      status_code resp = 429 \<and> retry_after_seconds (retry_after resp) = Inr (ra i) \<and>
      wait_accepted (ra i) backoff_factor"
    and "printable max_retries"
  shows "fetch_api_data srv url params max_retries backoff_factor tr =
     Some (Inl (ApiRequestFailed max_retries),
       tr @ limited_attempts ra backoff_factor (nat max_retries))"
proof -
  have "int (nat max_retries) \<le> max_retries \<or> max_retries < 0" by linarith
  then show ?thesis
  proof
    assume le: "int (nat max_retries) \<le> max_retries"
    with assms(1) have "fetch_loop srv url params max_retries backoff_factor 0 tr =
        fetch_loop srv url params max_retries backoff_factor (nat max_retries)
          (tr @ limited_attempts ra backoff_factor (nat max_retries))"
      using consecutive_rate_limits
        [of "nat max_retries" srv tr url params ra backoff_factor max_retries]
      by simp
    with assms(2) show ?thesis
      by (simp add: fetch_api_data_def fetch_loop_exhausted raise_request_failed_def)
  next
    assume "max_retries < 0"
    with assms(2) show ?thesis
      by (simp add: fetch_api_data_def fetch_loop_exhausted limited_attempts_def
          raise_request_failed_def)
  qed
qed

text \<open>When every answer of the server is one the loop returns on, counts or raises on,
  that is a status 200, 429 or 400 to 599, or a failed request, the loop returns: each
  pass either ends it or uses up one of the \<open>max_retries\<close> attempts.\<close>

lemma try_body_counts:
  assumes "case srv (issued tr) url params of
             Fails e \<Rightarrow> True
           | Responds r \<Rightarrow> status_code r = 200 \<or> status_code r = 429 \<or> raise_for_status (status_code r)"
  shows "fst (try_body srv url params backoff_factor tr) \<noteq> Uncounted"
  using assms
  by (auto simp: try_body_def split: http_outcome.splits option.splits sum.splits)

lemma fetch_loop_returns:
  assumes "\<And>n. case srv n url params of
             Fails e \<Rightarrow> True
           | Responds r \<Rightarrow> status_code r = 200 \<or> status_code r = 429 \<or> raise_for_status (status_code r)"
  shows "\<exists>y. fetch_loop srv url params max_retries backoff_factor retries tr = Some y"
proof (induction "nat (max_retries - int retries)" arbitrary: retries tr)
  case 0
  then have "\<not> int retries < max_retries" by simp
  then show ?case by (simp add: fetch_loop_exhausted)
next
  case (Suc k)
  then have lt: "int retries < max_retries" by linarith
  have k: "k = nat (max_retries - int (retries + 1))" using Suc(2) by linarith
  note IH = Suc(1) [OF k]
  obtain a tr1 where tb: "try_body srv url params backoff_factor tr = (a, tr1)"
    by (cases "try_body srv url params backoff_factor tr")
  from try_body_counts [of srv tr url params backoff_factor, OF assms] tb
  have counts: "a \<noteq> Uncounted" by simp
  show ?case
  proof (cases a)
    case (Return body)
    with lt tb show ?thesis by (subst fetch_loop.simps) simp
  next
    case Counted
    with lt tb IH [of tr1] show ?thesis by (subst fetch_loop.simps) simp
  next
    case Uncounted
    with counts show ?thesis by simp
  next
    case (Raised x)
    show ?thesis
    proof (cases x)
      case (RequestException e)
      show ?thesis
      proof (cases "int (retries + 1) < max_retries")
        case False
        with lt tb Raised RequestException show ?thesis
          by (subst fetch_loop.simps) simp
      next
        case True
        show ?thesis
        proof (cases "float_of_int (2 ^ (retries + 1))")
          case (Inl err)
          with True lt tb Raised RequestException show ?thesis
            by (subst fetch_loop.simps) simp
        next
          case (Inr p)
          show ?thesis
          proof (cases "time_sleep (backoff_factor * p)")
            case (Some err)
            with Inr True lt tb Raised RequestException show ?thesis
              by (subst fetch_loop.simps) simp
          next
            case None
            with Inr True lt tb Raised RequestException
              IH [of "tr1 @ [Print (RequestFailed e), Print (RetryingIn (backoff_factor * p)),
                             Sleep (backoff_factor * p)]"]
            show ?thesis
              by (subst fetch_loop.simps) simp
          qed
        qed
      qed
    qed (use lt tb Raised in \<open>(subst fetch_loop.simps, simp)+\<close>)
  qed
qed

text \<open>The loop only appends to the run's trace, and never a saved chart.\<close>

lemma try_body_trace:
  "\<exists>evs. snd (try_body srv url params backoff_factor tr) = tr @ evs \<and>
     list_all (\<lambda>ev. \<not> is_Savefig ev) evs"
  by (auto simp: try_body_def rate_limit_sleep_def
      split: http_outcome.splits sum.splits option.splits)

lemma fetch_loop_trace:
  assumes "fetch_loop srv url params max_retries backoff_factor retries tr = Some y"
  shows "\<exists>evs. snd y = tr @ evs \<and> list_all (\<lambda>ev. \<not> is_Savefig ev) evs"
proof (rule fetch_loop.raw_induct
    [where P = "\<lambda>srv url params max_retries backoff_factor retries tr y.
       \<exists>evs. snd y = tr @ evs \<and> list_all (\<lambda>ev. \<not> is_Savefig ev) evs", OF _ assms],
    goal_cases)
  case (1 f s u p m b r t z)
  note IH = 1(1) and step = 1(2)
  obtain a tr1 where tb: "try_body s u p b t = (a, tr1)"
    by (cases "try_body s u p b t")
  from try_body_trace [of s u p b t] tb
  obtain evs1 where e1: "tr1 = t @ evs1" "list_all (\<lambda>ev. \<not> is_Savefig ev) evs1"
    by auto
  have later: "\<exists>evs. snd z = t @ evs \<and> list_all (\<lambda>ev. \<not> is_Savefig ev) evs"
    if "f s u p m b k (tr1 @ more) = Some z"
      and "list_all (\<lambda>ev. \<not> is_Savefig ev) more" for k more
  proof -
    from IH [OF that(1)] obtain evs where "snd z = (tr1 @ more) @ evs"
      "list_all (\<lambda>ev. \<not> is_Savefig ev) evs" by blast
    with e1 that(2) show ?thesis by (intro exI [of _ "evs1 @ more @ evs"]) simp
  qed
  show ?case
  proof (cases "int r < m")
    case False
    with step show ?thesis by auto
  next
    case True
    show ?thesis
    proof (cases a)
      case (Return body)
      with step True tb e1 show ?thesis by auto
    next
      case Counted
      with step True tb have "f s u p m b (r + 1) (tr1 @ []) = Some z"
        by simp
      then show ?thesis by (rule later) simp
    next
      case Uncounted
      with step True tb have "f s u p m b r (tr1 @ []) = Some z"
        by simp
      then show ?thesis by (rule later) simp
    next
      case (Raised x)
      show ?thesis
      proof (cases x)
        case (RequestException e)
        show ?thesis
        proof (cases "int (r + 1) < m")
          case f: False
          with step True tb Raised RequestException e1 show ?thesis by auto
        next
          case t: True
          show ?thesis
          proof (cases "float_of_int (2 ^ (r + 1))")
            case (Inl err)
            with t step True tb Raised RequestException e1 show ?thesis by auto
          next
            case (Inr q)
            show ?thesis
            proof (cases "time_sleep (b * q)")
              case (Some err)
              with Inr t step True tb Raised RequestException e1 show ?thesis by auto
            next
              case None
              with Inr t step True tb Raised RequestException
              have "f s u p m b (r + 1)
                      (tr1 @ [Print (RequestFailed e), Print (RetryingIn (b * q)),
                              Sleep (b * q)]) = Some z"
                by simp
              then show ?thesis by (rule later) simp
            qed
          qed
        qed
      qed (use step True tb Raised e1 in auto)
    qed
  qed
qed

section \<open>Claims about validate_response_schema\<close>







lemma validate_incomplete:
  "validate_response_schema incomplete =
     Inl (ValueError ''Invalid API response: missing key daily_units'')"
  by (simp add: incomplete_def validate_response_schema_def required_keys_def keys_def)

section \<open>Claims about get_data_meteo_api\<close>

text \<open>
  C6. For a city name that is not in \<^verbatim>\<open>COORDINATES\<close>, \<^verbatim>\<open>get_data_meteo_api\<close> raises
  the \<^verbatim>\<open>ValueError\<close> "City ... not found in COORDINATES" and the run's trace is
  unchanged: no request is issued, \<^verbatim>\<open>fetch_api_data\<close> is not reached.
\<close>

theorem unknown_city_no_request:
  assumes "c \<notin> fst ` set COORDINATES"
  shows "get_data_meteo_api srv c tr =
     Some (Inl (ValueError (''City '' @ c @ '' not found in COORDINATES'')), tr)"
proof -
  from assms have "map_of COORDINATES c = None"
    by (simp add: map_of_eq_None_iff)
  then show ?thesis by (simp add: get_data_meteo_api_def)
qed

theorem unknown_city_no_request_witness:
  "get_data_meteo_api always_ok ''Paris'' [] =
     Some (Inl (ValueError ''City Paris not found in COORDINATES''), [])"
  using unknown_city_no_request [of "''Paris''" always_ok "[]"]
  by (simp add: COORDINATES_def)

section \<open>Claims about process_daily_data\<close>


lemma month_end_month_no:
  assumes "1 \<le> m" and "m \<le> 12"
  shows "month_end (month_no (y, m, d)) = (y, m, days_in_month y m)"
proof -
  from assms obtain j where j: "m = Suc j" "j < 12"
    by (cases m) auto
  have "(12 * y + j) div 12 = y" and "(12 * y + j) mod 12 = j"
    using j(2) by simp_all
  then show ?thesis
    by (simp add: month_end_def month_no_def j(1))
qed

lemma resample_ME_same_month:
  assumes "month_no t1 = k" and "month_no t2 = k"
  shows "resample_ME [(t1, x1), (t2, x2)] = [(month_end k, [x1, x2])]"
  using assms by (simp add: resample_ME_def)

text \<open>The monthly table of two rows of one month, whatever their cells hold.\<close>

lemma monthly_two_rows:
  assumes "1 \<le> m" and "m \<le> 12"
  shows "monthly
      [\<lparr>time = (y, m, d1), temperature = x1, precipitation = y1, wind_speed = z1\<rparr>,
       \<lparr>time = (y, m, d2), temperature = x2, precipitation = y2, wind_speed = z2\<rparr>] c =
      [\<lparr>time = (y, m, days_in_month y m),
        temperature = resample_mean [x1, x2],
        precipitation = resample_sum [y1, y2],
        wind_speed = resample_max [z1, z2],
        city = c\<rparr>]"
proof -
  have k: "month_no (y, m, d1) = month_no (y, m, d2)"
    by (simp add: month_no_def)
  have e: "month_end (month_no (y, m, d2)) = (y, m, days_in_month y m)"
    using assms by (simp add: month_end_month_no)
  show ?thesis
    by (simp add: monthly_def resample_ME_same_month [OF k refl] e)
qed

lemma iso_date_jan_1: "iso_date ''2010-01-01'' = Some (2010, 1, 1)"
  by (simp add: iso_date_def number_def is_digit_def digit_val_def days_in_month_def)

lemma iso_date_jan_2: "iso_date ''2010-01-02'' = Some (2010, 1, 2)"
  by (simp add: iso_date_def number_def is_digit_def digit_val_def days_in_month_def)

text \<open>The two days of the module's test, for any city.\<close>

lemma process_two_days:
  "process_daily_data two_days c =
     Some (Inr [\<lparr>time = (2010, 1, 31), temperature = Some 11, precipitation = Some 5,
                 wind_speed = Some 4, city = c\<rparr>])"
  by (simp add: two_days_def process_daily_data_def monthly_table_def to_datetime_def
      iso_date_jan_1 iso_date_jan_2 monthly_two_rows days_in_month_def
      resample_mean_def resample_sum_def resample_max_def)




section \<open>Claims about main\<close>

text \<open>The \<^verbatim>\<open>try\<close> block of one city only appends to the trace, and never a saved
  chart.\<close>

lemma try_city_trace:
  assumes "try_city process srv c tr = Some (r, tr1)"
  shows "\<exists>evs. tr1 = tr @ evs \<and> list_all (\<lambda>ev. \<not> is_Savefig ev) evs"
proof (cases "map_of COORDINATES c")
  case None
  with assms show ?thesis
    by (simp add: try_city_def get_data_meteo_api_def)
next
  case (Some ll)
  obtain lat lon where ll: "ll = (lat, lon)" by (cases ll)
  let ?f = "fetch_api_data srv API_URL
      \<lparr>latitude = lat, longitude = lon, start_date = ''2010-01-01'',
       end_date = ''2020-12-31'', daily = join '','' VARIABLES\<rparr> 3 1 tr"
  from assms Some ll obtain y where y: "?f = Some y" and "snd y = tr1"
    by (auto simp: try_city_def get_data_meteo_api_def
        split: option.splits sum.splits prod.splits)
  from fetch_loop_trace [OF y [unfolded fetch_api_data_def]] \<open>snd y = tr1\<close>
  show ?thesis by simp
qed

lemma saved_charts_append: "saved_charts (tr @ evs) = saved_charts tr @ saved_charts evs"
  by (simp add: saved_charts_def)

lemma saved_charts_none:
  "list_all (\<lambda>ev. \<not> is_Savefig ev) evs \<Longrightarrow> saved_charts evs = []"
  by (simp add: saved_charts_def filter_empty_conv list_all_iff)

lemma saved_charts_error_line: "saved_charts (error_line c r) = []"
  by (cases r) (simp_all add: saved_charts_def error_line_def)

text \<open>
  C7. In a run of the driver the \<^verbatim>\<open>try\<close> block of each of the three cities ends, with
  an error raised in the lookup, the fetch, the validation or the aggregation, or with
  a table. An error is caught and printed for that city and the loop goes on with the
  next city; the tables of the other cities are kept, in order, and plotted. When the
  block raises for every city, \<^verbatim>\<open>pd.concat\<close> gets an empty list and raises
  "No objects to concatenate": \<^verbatim>\<open>main\<close> ends with that error after the last error line,
  and no chart is saved.
\<close>

theorem driver_keeps_partial_results:
  assumes "try_city process srv ''Madrid'' [Print (FetchingDataFor ''Madrid'')] = Some (r1, t1)"
    and "try_city process srv ''London''
           (t1 @ error_line ''Madrid'' r1 @ [Print (FetchingDataFor ''London'')]) = Some (r2, t2)"
    and "try_city process srv ''Rio''
           (t2 @ error_line ''London'' r2 @ [Print (FetchingDataFor ''Rio'')]) = Some (r3, t3)"
  shows "main process srv =
     (if isl r1 \<and> isl r2 \<and> isl r3
      then Some (Inl (ValueError ''No objects to concatenate''), t3 @ error_line ''Rio'' r3)
      else Some (Inr (), plot_combined_data (concat (collected r1 @ collected r2 @ collected r3))
                           (t3 @ error_line ''Rio'' r3)))
   \<and> saved_charts (t3 @ error_line ''Rio'' r3) = []"
proof
  show "main process srv =
     (if isl r1 \<and> isl r2 \<and> isl r3
      then Some (Inl (ValueError ''No objects to concatenate''), t3 @ error_line ''Rio'' r3)
      else Some (Inr (), plot_combined_data (concat (collected r1 @ collected r2 @ collected r3))
                           (t3 @ error_line ''Rio'' r3)))"
    using assms
    by (cases r1; cases r2; cases r3)
      (simp_all add: main_def COORDINATES_def error_line_def collected_def pd_concat_def)
next
  from try_city_trace [OF assms(1)] obtain evs1
    where 1: "t1 = [Print (FetchingDataFor ''Madrid'')] @ evs1"
      "list_all (\<lambda>ev. \<not> is_Savefig ev) evs1"
    by blast
  from try_city_trace [OF assms(2)] obtain evs2
    where 2: "t2 = (t1 @ error_line ''Madrid'' r1 @ [Print (FetchingDataFor ''London'')]) @ evs2"
      "list_all (\<lambda>ev. \<not> is_Savefig ev) evs2"
    by blast
  from try_city_trace [OF assms(3)] obtain evs3
    where 3: "t3 = (t2 @ error_line ''London'' r2 @ [Print (FetchingDataFor ''Rio'')]) @ evs3"
      "list_all (\<lambda>ev. \<not> is_Savefig ev) evs3"
    by blast
  have "saved_charts t1 = []"
    using 1 by (simp add: saved_charts_def filter_empty_conv list_all_iff)
  then have "saved_charts t2 = []"
    using 2 by (simp add: saved_charts_append saved_charts_none saved_charts_error_line)
  then have "saved_charts t3 = []"
    using 3 by (simp add: saved_charts_append saved_charts_none saved_charts_error_line)
  then show "saved_charts (t3 @ error_line ''Rio'' r3) = []"
    by (simp add: saved_charts_append saved_charts_error_line)
qed

text \<open>Against the server that can be reached from the fourth request on, a city whose
  turn comes after the third request gets the two days at once.\<close>

lemma try_city_reachable_later:
  assumes "3 \<le> issued tr" and "c \<in> fst ` set COORDINATES"
  shows "try_city process_daily_data reachable_later c tr =
     Some (Inr [\<lparr>time = (2010, 1, 31), temperature = Some 11, precipitation = Some 5,
                 wind_speed = Some 4, city = c\<rparr>], tr @ [Get])"
proof -
  have v: "validate_response_schema two_days = Inr ()"
    by code_simp
  have f: "fetch_api_data reachable_later API_URL p 3 1 tr = Some (Inr two_days, tr @ [Get])" for p
    using assms(1) fetch_loop_200 [of 0 3 reachable_later tr API_URL p ok two_days 1]
    by (simp add: fetch_api_data_def reachable_later_def ok_def)
  from assms(2) have "map_of COORDINATES c \<noteq> None"
    by (simp add: map_of_eq_None_iff)
  then obtain lat lon where "map_of COORDINATES c = Some (lat, lon)"
    by (cases "map_of COORDINATES c") auto
  then show ?thesis
    by (simp add: try_city_def get_data_meteo_api_def f v process_two_days)
qed

text \<open>Two runs of the driver. When the server cannot be reached for the three requests
  of Madrid and answers afterwards, the error of Madrid is printed and the chart shows
  London and Rio. When the server cannot be reached at all, the three errors are printed
  and the run ends with the error of \<^verbatim>\<open>pd.concat\<close>, without a chart.\<close>

theorem driver_keeps_partial_results_witness:
  "main process_daily_data reachable_later =
     Some (Inr (),
       [Print (FetchingDataFor ''Madrid''),
        Get, Print (RequestFailed ConnectionError), Print (RetryingIn 2), Sleep 2,
        Get, Print (RequestFailed ConnectionError), Print (RetryingIn 4), Sleep 4,
        Get, Print (RequestFailed ConnectionError),
        Print (ErrorProcessing ''Madrid'' (MaxRetriesExceeded 3)),
        Print (FetchingDataFor ''London''), Get,
        Print (FetchingDataFor ''Rio''), Get,
        Savefig ''weather_evolution.png''
          [(''Monthly Mean Temperature ('' @ [CHR 0xC2, CHR 0xB0] @ ''C)'',
            [(''London'', [((2010, 1, 31), Some 11)]), (''Rio'', [((2010, 1, 31), Some 11)])]),
           (''Monthly Total Precipitation (mm)'',
            [(''London'', [((2010, 1, 31), Some 5)]), (''Rio'', [((2010, 1, 31), Some 5)])]),
           (''Monthly Maximum Wind Speed (m/s)'',
            [(''London'', [((2010, 1, 31), Some 4)]), (''Rio'', [((2010, 1, 31), Some 4)])])],
        Print PlotSaved])
   \<and> main process_daily_data unreachable =
     Some (Inl (ValueError ''No objects to concatenate''),
       [Print (FetchingDataFor ''Madrid''),
        Get, Print (RequestFailed ConnectionError), Print (RetryingIn 2), Sleep 2,
        Get, Print (RequestFailed ConnectionError), Print (RetryingIn 4), Sleep 4,
        Get, Print (RequestFailed ConnectionError),
        Print (ErrorProcessing ''Madrid'' (MaxRetriesExceeded 3)),
        Print (FetchingDataFor ''London''),
        Get, Print (RequestFailed ConnectionError), Print (RetryingIn 2), Sleep 2,
        Get, Print (RequestFailed ConnectionError), Print (RetryingIn 4), Sleep 4,
        Get, Print (RequestFailed ConnectionError),
        Print (ErrorProcessing ''London'' (MaxRetriesExceeded 3)),
        Print (FetchingDataFor ''Rio''),
        Get, Print (RequestFailed ConnectionError), Print (RetryingIn 2), Sleep 2,
        Get, Print (RequestFailed ConnectionError), Print (RetryingIn 4), Sleep 4,
        Get, Print (RequestFailed ConnectionError),
        Print (ErrorProcessing ''Rio'' (MaxRetriesExceeded 3))])"
proof
  let ?fails = "[Get, Print (RequestFailed ConnectionError), Print (RetryingIn 2), Sleep 2,
        Get, Print (RequestFailed ConnectionError), Print (RetryingIn 4), Sleep 4,
        Get, Print (RequestFailed ConnectionError)]"
  let ?row = "\<lambda>c. [\<lparr>time = (2010, 1, 31), temperature = Some 11, precipitation = Some 5,
                 wind_speed = Some 4, city = c\<rparr>]"
  let ?t1 = "Print (FetchingDataFor ''Madrid'') # ?fails"
  let ?r1 = "Inl (MaxRetriesExceeded 3) :: exn + monthly_row list"
  have 1: "try_city process_daily_data reachable_later ''Madrid''
      [Print (FetchingDataFor ''Madrid'')] = Some (?r1, ?t1)"
    by code_simp
  let ?s2 = "?t1 @ error_line ''Madrid'' ?r1 @ [Print (FetchingDataFor ''London'')]"
  have 2: "try_city process_daily_data reachable_later ''London'' ?s2 =
      Some (Inr (?row ''London''), ?s2 @ [Get])"
    by (rule try_city_reachable_later) (simp_all add: issued_def COORDINATES_def)
  let ?s3 = "(?s2 @ [Get]) @ error_line ''London'' (Inr (?row ''London'')) @
      [Print (FetchingDataFor ''Rio'')]"
  have 3: "try_city process_daily_data reachable_later ''Rio'' ?s3 =
      Some (Inr (?row ''Rio''), ?s3 @ [Get])"
    by (rule try_city_reachable_later) (simp_all add: issued_def COORDINATES_def)
  from driver_keeps_partial_results [OF 1 2 3]
  show "main process_daily_data reachable_later =
     Some (Inr (),
       [Print (FetchingDataFor ''Madrid''),
        Get, Print (RequestFailed ConnectionError), Print (RetryingIn 2), Sleep 2,
        Get, Print (RequestFailed ConnectionError), Print (RetryingIn 4), Sleep 4,
        Get, Print (RequestFailed ConnectionError),
        Print (ErrorProcessing ''Madrid'' (MaxRetriesExceeded 3)),
        Print (FetchingDataFor ''London''), Get,
        Print (FetchingDataFor ''Rio''), Get,
        Savefig ''weather_evolution.png''
          [(''Monthly Mean Temperature ('' @ [CHR 0xC2, CHR 0xB0] @ ''C)'',
            [(''London'', [((2010, 1, 31), Some 11)]), (''Rio'', [((2010, 1, 31), Some 11)])]),
           (''Monthly Total Precipitation (mm)'',
            [(''London'', [((2010, 1, 31), Some 5)]), (''Rio'', [((2010, 1, 31), Some 5)])]),
           (''Monthly Maximum Wind Speed (m/s)'',
            [(''London'', [((2010, 1, 31), Some 4)]), (''Rio'', [((2010, 1, 31), Some 4)])])],
        Print PlotSaved])"
    by (simp add: collected_def error_line_def plot_combined_data_def titles_def)
next
  let ?fails = "[Get, Print (RequestFailed ConnectionError), Print (RetryingIn 2), Sleep 2,
        Get, Print (RequestFailed ConnectionError), Print (RetryingIn 4), Sleep 4,
        Get, Print (RequestFailed ConnectionError)]"
  let ?r = "Inl (MaxRetriesExceeded 3) :: exn + monthly_row list"
  let ?t1 = "Print (FetchingDataFor ''Madrid'') # ?fails"
  have 1: "try_city process_daily_data unreachable ''Madrid''
      [Print (FetchingDataFor ''Madrid'')] = Some (?r, ?t1)"
    by code_simp
  let ?s2 = "?t1 @ error_line ''Madrid'' ?r @ [Print (FetchingDataFor ''London'')]"
  have 2: "try_city process_daily_data unreachable ''London'' ?s2 = Some (?r, ?s2 @ ?fails)"
    by code_simp
  let ?s3 = "(?s2 @ ?fails) @ error_line ''London'' ?r @ [Print (FetchingDataFor ''Rio'')]"
  have 3: "try_city process_daily_data unreachable ''Rio'' ?s3 = Some (?r, ?s3 @ ?fails)"
    by code_simp
  from driver_keeps_partial_results [OF 1 2 3]
  show "main process_daily_data unreachable =
     Some (Inl (ValueError ''No objects to concatenate''),
       [Print (FetchingDataFor ''Madrid''),
        Get, Print (RequestFailed ConnectionError), Print (RetryingIn 2), Sleep 2,
        Get, Print (RequestFailed ConnectionError), Print (RetryingIn 4), Sleep 4,
        Get, Print (RequestFailed ConnectionError),
        Print (ErrorProcessing ''Madrid'' (MaxRetriesExceeded 3)),
        Print (FetchingDataFor ''London''),
        Get, Print (RequestFailed ConnectionError), Print (RetryingIn 2), Sleep 2,
        Get, Print (RequestFailed ConnectionError), Print (RetryingIn 4), Sleep 4,
        Get, Print (RequestFailed ConnectionError),
        Print (ErrorProcessing ''London'' (MaxRetriesExceeded 3)),
        Print (FetchingDataFor ''Rio''),
        Get, Print (RequestFailed ConnectionError), Print (RetryingIn 2), Sleep 2,
        Get, Print (RequestFailed ConnectionError), Print (RetryingIn 4), Sleep 4,
        Get, Print (RequestFailed ConnectionError),
        Print (ErrorProcessing ''Rio'' (MaxRetriesExceeded 3))])"
    by (simp add: error_line_def)
qed

end
